theory Spec2Isabelle
  imports Complex_Main
begin

section \<open>The DOM as DomManager sees it\<close>

text \<open>
  \<^verbatim>\<open>src/dom/DomManager.ts\<close> is a class of static methods over the browser's DOM. The
  DOM is the environment of the code, so the part of it the methods touch is written out
  here: a tree of nodes, the \<^verbatim>\<open>nodeValue\<close> and \<^verbatim>\<open>textContent\<close> accessors, the child
  list operations, and the lookups \<^verbatim>\<open>querySelector\<close>, \<^verbatim>\<open>querySelectorAll\<close> and
  \<^verbatim>\<open>getElementById\<close>.

  An \<^verbatim>\<open>HTMLElement\<close> has a tag name, an id (the empty string when it has none) and an
  ordered list of child nodes. A child node is an element, a text node or a comment.
\<close>

datatype node = ElementNode element | TextNode string | CommentNode string
and element = Element (tagName: string) (ident: string) (childNodes: "node list")

text \<open>
  \<^verbatim>\<open>node.nodeValue\<close>: the data of a text node or a comment, \<^verbatim>\<open>null\<close> for an element.
\<close>

fun nodeValue :: "node \<Rightarrow> string option" where
  "nodeValue (ElementNode e) = None"
| "nodeValue (TextNode d) = Some d"
| "nodeValue (CommentNode d) = Some d"

text \<open>
  \<^verbatim>\<open>node.nodeValue = v\<close>: replaces the data of a text node or a comment; on an element,
  whose \<^verbatim>\<open>nodeValue\<close> is defined to be \<^verbatim>\<open>null\<close>, the assignment has no effect.
\<close>

fun set_nodeValue :: "node \<Rightarrow> string \<Rightarrow> node" where
  "set_nodeValue (ElementNode e) v = ElementNode e"
| "set_nodeValue (TextNode d) v = TextNode v"
| "set_nodeValue (CommentNode d) v = CommentNode v"

fun isTextNode :: "node \<Rightarrow> bool" where
  "isTextNode (TextNode d) = True"
| "isTextNode (ElementNode e) = False"
| "isTextNode (CommentNode d) = False"

definition createTextNode :: "string \<Rightarrow> node" where
  "createTextNode text = TextNode text"

definition appendChild :: "element \<Rightarrow> node \<Rightarrow> element" where
  "appendChild parent child =
     Element (tagName parent) (ident parent) (childNodes parent @ [child])"

definition lastChild :: "element \<Rightarrow> node option" where
  "lastChild parent =
     (if childNodes parent = [] then None else Some (last (childNodes parent)))"

text \<open>
  \<^verbatim>\<open>parent.removeChild(child)\<close> detaches one child. A node value carries no identity,
  so the child is named by its position in \<^verbatim>\<open>parent.childNodes\<close>.
\<close>

definition removeChild :: "element \<Rightarrow> nat \<Rightarrow> element" where
  "removeChild parent i =
     Element (tagName parent) (ident parent)
       (take i (childNodes parent) @ drop (Suc i) (childNodes parent))"

text \<open>
  The elements below a node, in tree order (a node before its children, children from
  first to last). \<open>descendants e\<close> leaves \<open>e\<close> itself out, as \<^verbatim>\<open>e.querySelector\<close> does.
\<close>

fun descendants :: "element \<Rightarrow> element list"
  and inclusive_descendants :: "node \<Rightarrow> element list" where
  "descendants (Element t i cs) = concat (map inclusive_descendants cs)"
| "inclusive_descendants (ElementNode e) = e # descendants e"
| "inclusive_descendants (TextNode d) = []"
| "inclusive_descendants (CommentNode d) = []"

text \<open>
  \<^verbatim>\<open>element.textContent\<close>: the data of the text nodes below the element, concatenated
  in tree order. Its type is \<^verbatim>\<open>string | null\<close>; on an element it is never \<^verbatim>\<open>null\<close>.
\<close>

fun descendant_text :: "element \<Rightarrow> string"
  and descendant_text_node :: "node \<Rightarrow> string" where
  "descendant_text (Element t i cs) = concat (map descendant_text_node cs)"
| "descendant_text_node (ElementNode e) = descendant_text e"
| "descendant_text_node (TextNode d) = d"
| "descendant_text_node (CommentNode d) = []"

definition textContent :: "element \<Rightarrow> string option" where
  "textContent e = Some (descendant_text e)"

section \<open>Documents, selectors and the DOM lookups\<close>

text \<open>
  A document owns a list of child nodes (its root element among them), and
  \<^verbatim>\<open>document.querySelector\<close> searches all elements of the document, the root included.
\<close>

datatype document = Document (documentChildren: "node list")

text \<open>
  The receiver of \<^verbatim>\<open>querySelector\<close> in \<^verbatim>\<open>getElementByQuery\<close> is
  \<^verbatim>\<open>(ancestor == null ? document : ancestor)\<close>: the document or an element.
\<close>

datatype parentNode = OfDocument document | OfElement element

fun scope_elements :: "parentNode \<Rightarrow> element list" where
  "scope_elements (OfDocument d) = concat (map inclusive_descendants (documentChildren d))"
| "scope_elements (OfElement e) = descendants e"

text \<open>
  The browser's selector engine is a parameter \<open>css\<close> of every lookup: it reads a
  selector string as a predicate on elements, or rejects the string (\<open>None\<close>), in which
  case the DOM raises a \<^verbatim>\<open>SyntaxError\<close>. The only exception the source itself raises is
  \<^verbatim>\<open>new Error(`Element not found: ${query}`)\<close>.
\<close>

type_synonym selectors = "string \<Rightarrow> (element \<Rightarrow> bool) option"

datatype error = Error (message: string) | SyntaxError

definition querySelector :: "selectors \<Rightarrow> parentNode \<Rightarrow> string \<Rightarrow> error + element option" where
  "querySelector css scope query =
     (case css query of
        None \<Rightarrow> Inl SyntaxError
      | Some matches \<Rightarrow> Inr (find matches (scope_elements scope)))"

definition querySelectorAll :: "selectors \<Rightarrow> parentNode \<Rightarrow> string \<Rightarrow> error + element list" where
  "querySelectorAll css scope query =
     (case css query of
        None \<Rightarrow> Inl SyntaxError
      | Some matches \<Rightarrow> Inr (filter matches (scope_elements scope)))"

text \<open>
  \<^verbatim>\<open>document.getElementById(id)\<close>: the first element of the document, in tree order,
  whose id is \<^verbatim>\<open>id\<close>; \<^verbatim>\<open>null\<close> when there is none. An element with an empty id
  attribute has no id, so the empty string finds nothing.
\<close>

definition has_id :: "string \<Rightarrow> element \<Rightarrow> bool" where
  "has_id i e \<longleftrightarrow> i \<noteq> [] \<and> ident e = i"

definition document_getElementById :: "document \<Rightarrow> string \<Rightarrow> element option" where
  "document_getElementById d i = find (has_id i) (scope_elements (OfDocument d))"

section \<open>Config\<close>

text \<open>
  \<^verbatim>\<open>import { Config } from '../Config'\<close>: the selector strings
  \<^verbatim>\<open>Config.dom.selector.*\<close> and the element ids \<^verbatim>\<open>Config.dom.id.*\<close> that DomManager
  reads. Their values are not part of \<^verbatim>\<open>DomManager.ts\<close>; the configuration is a
  parameter \<open>cfg\<close> of every method that reads it.
\<close>

record config =
  ytCommentContainer :: string
  ytCommentTitle :: string
  ytCommentThread :: string
  ytCommentContents :: string
  ytCommentText :: string
  ytCommentSortItems :: string
  yayFilterContainer :: string
  yayFilterStatus :: string
  yayFilterInfo :: string

section \<open>DomManager: lookups\<close>

text \<open>
  The global \<^verbatim>\<open>document\<close> is an explicit argument. A method that can throw returns
  \<open>error + result\<close>, the exception on the left.
  \<^verbatim>\<open>
  static getElementByQuery(query: string, ancestor: HTMLElement | null = null): HTMLElement {
      const elem = (ancestor == null ? document : ancestor).querySelector(query);
      if (elem == null) throw new Error(`Element not found: ${query}`);
      return elem as HTMLElement;
  }
  \<close>
\<close>

definition getElementByQuery ::
  "selectors \<Rightarrow> document \<Rightarrow> string \<Rightarrow> element option \<Rightarrow> error + element" where
  "getElementByQuery css document query ancestor =
     (case querySelector css
             (case ancestor of None \<Rightarrow> OfDocument document | Some a \<Rightarrow> OfElement a) query of
        Inl exn \<Rightarrow> Inl exn
      | Inr None \<Rightarrow> Inl (Error (''Element not found: '' @ query))
      | Inr (Some elem) \<Rightarrow> Inr elem)"

text \<open>\<^verbatim>\<open>static getElementById(id) { return this.getElementByQuery(`#${id}`); }\<close>\<close>

definition getElementById :: "selectors \<Rightarrow> document \<Rightarrow> string \<Rightarrow> error + element" where
  "getElementById css document i = getElementByQuery css document (''#'' @ i) None"

text \<open>\<^verbatim>\<open>return document.querySelector(Config.dom.selector.ytCommentContainer);\<close>\<close>

definition findCommentContainer :: "selectors \<Rightarrow> config \<Rightarrow> document \<Rightarrow> error + element option" where
  "findCommentContainer css cfg document =
     querySelector css (OfDocument document) (ytCommentContainer cfg)"

text \<open>\<^verbatim>\<open>return document.querySelector(Config.dom.selector.ytCommentTitle);\<close>\<close>

definition findCommentHeader :: "selectors \<Rightarrow> config \<Rightarrow> document \<Rightarrow> error + element option" where
  "findCommentHeader css cfg document =
     querySelector css (OfDocument document) (ytCommentTitle cfg)"

text \<open>\<^verbatim>\<open>return document.getElementById(Config.dom.id.yayFilterContainer);\<close>\<close>

definition findYayFilterContainer :: "config \<Rightarrow> document \<Rightarrow> element option" where
  "findYayFilterContainer cfg document = document_getElementById document (yayFilterContainer cfg)"

text \<open>\<^verbatim>\<open>return this.getElementById(Config.dom.id.yayFilterContainer);\<close>\<close>

definition getYayFilterContainer :: "selectors \<Rightarrow> config \<Rightarrow> document \<Rightarrow> error + element" where
  "getYayFilterContainer css cfg document = getElementById css document (yayFilterContainer cfg)"

text \<open>\<^verbatim>\<open>return document.getElementById(Config.dom.id.yayFilterStatus);\<close>\<close>

definition findYayFilterStatus :: "config \<Rightarrow> document \<Rightarrow> element option" where
  "findYayFilterStatus cfg document = document_getElementById document (yayFilterStatus cfg)"

text \<open>\<^verbatim>\<open>return document.getElementById(Config.dom.id.yayFilterInfo);\<close>\<close>

definition findYayFilterInfo :: "config \<Rightarrow> document \<Rightarrow> element option" where
  "findYayFilterInfo cfg document = document_getElementById document (yayFilterInfo cfg)"

text \<open>\<^verbatim>\<open>return document.querySelectorAll(Config.dom.selector.ytCommentThread);\<close>\<close>

definition findCommentThreads :: "selectors \<Rightarrow> config \<Rightarrow> document \<Rightarrow> error + element list" where
  "findCommentThreads css cfg document =
     querySelectorAll css (OfDocument document) (ytCommentThread cfg)"

text \<open>\<^verbatim>\<open>return this.getElementByQuery(Config.dom.selector.ytCommentContents);\<close>\<close>

definition getCommentThreadContainer :: "selectors \<Rightarrow> config \<Rightarrow> document \<Rightarrow> error + element" where
  "getCommentThreadContainer css cfg document =
     getElementByQuery css document (ytCommentContents cfg) None"

text \<open>
  \<^verbatim>\<open>
  static fetchTextContent(thread: HTMLElement): string {
      const text = thread.querySelector(Config.dom.selector.ytCommentText);
      if (text == null || text.textContent == null) return '';
      return text.textContent;
  }
  \<close>
\<close>

definition fetchTextContent :: "selectors \<Rightarrow> config \<Rightarrow> element \<Rightarrow> error + string" where
  "fetchTextContent css cfg thread =
     (case querySelector css (OfElement thread) (ytCommentText cfg) of
        Inl exn \<Rightarrow> Inl exn
      | Inr None \<Rightarrow> Inr ''''
      | Inr (Some text) \<Rightarrow>
          (case textContent text of None \<Rightarrow> Inr '''' | Some content \<Rightarrow> Inr content))"

text \<open>\<^verbatim>\<open>return document.querySelectorAll(Config.dom.selector.ytCommentSortItems);\<close>\<close>

definition findSortItems :: "selectors \<Rightarrow> config \<Rightarrow> document \<Rightarrow> error + element list" where
  "findSortItems css cfg document =
     querySelectorAll css (OfDocument document) (ytCommentSortItems cfg)"

section \<open>DomManager: waiting for the comment container\<close>

text \<open>
  \<^verbatim>\<open>
  static withCommentContainer(callback: (elem: HTMLElement | null) => void,
                              timeout = 30000, delay = 200): void {
      if (timeout <= 0) {
          // time limit exceeded
          callback(null);
      }

      const elem = this.findCommentContainer();
      if (elem == null) {
          // retry
          window.setTimeout(() => this.withCommentContainer(callback, timeout - delay, delay), delay);
      } else {
          callback(elem);
      }
  }
  \<close>
  The method runs against a page that changes between its runs, calls a callback it
  knows nothing about, and leaves a timer behind. All three are made explicit in the
  state of a discovery session:
  \<^item> \<open>calls\<close>: the arguments the callback has been invoked with, oldest first;
  \<^item> \<open>lookups\<close>: how many times \<^verbatim>\<open>findCommentContainer\<close> has been called;
  \<^item> \<open>timers\<close>: the pending \<^verbatim>\<open>setTimeout\<close> tasks, each the \<open>(timeout, delay)\<close> arguments
    of the deferred call of \<^verbatim>\<open>withCommentContainer\<close>.
  The page is a function \<open>page\<close>: \<open>page i\<close> is what \<^verbatim>\<open>findCommentContainer()\<close> returns at
  the lookup that follows \<open>i\<close> earlier ones (an element, or \<open>None\<close> for \<^verbatim>\<open>null\<close>).
  Times are whole milliseconds; the defaults \<open>30000\<close> and \<open>200\<close> are arguments like any
  other.
\<close>

record session =
  calls :: "element option list"
  lookups :: nat
  timers :: "(int \<times> int) list"

type_synonym page = "nat \<Rightarrow> element option"

definition callback :: "element option \<Rightarrow> session \<Rightarrow> session" where
  "callback elem s = s\<lparr>calls := calls s @ [elem]\<rparr>"

definition findCommentContainer_now :: "page \<Rightarrow> session \<Rightarrow> element option \<times> session" where
  "findCommentContainer_now page s = (page (lookups s), s\<lparr>lookups := lookups s + 1\<rparr>)"

definition setTimeout :: "int \<times> int \<Rightarrow> session \<Rightarrow> session" where
  "setTimeout task s = s\<lparr>timers := timers s @ [task]\<rparr>"

definition withCommentContainer :: "page \<Rightarrow> int \<Rightarrow> int \<Rightarrow> session \<Rightarrow> session" where
  "withCommentContainer page timeout delay s =
     (let s1 = (if timeout \<le> 0 then callback None s else s);
          (elem, s2) = findCommentContainer_now page s1
      in case elem of
           None \<Rightarrow> setTimeout (timeout - delay, delay) s2
         | Some e \<Rightarrow> callback (Some e) s2)"

text \<open>
  The event loop: each turn takes the oldest pending timer and runs its task. \<open>run page n\<close>
  runs at most \<open>n\<close> turns and stops early when no timer is pending.
\<close>

fun run :: "page \<Rightarrow> nat \<Rightarrow> session \<Rightarrow> session" where
  "run page 0 s = s"
| "run page (Suc n) s =
     (case timers s of
        [] \<Rightarrow> s
      | (timeout, delay) # rest \<Rightarrow>
          run page n (withCommentContainer page timeout delay (s\<lparr>timers := rest\<rparr>)))"

text \<open>
  A discovery session: the caller's invocation of \<^verbatim>\<open>withCommentContainer\<close>, followed by
  \<open>n\<close> turns of the event loop. The session is over when \<open>timers\<close> is empty.
\<close>

definition discovery :: "page \<Rightarrow> int \<Rightarrow> int \<Rightarrow> nat \<Rightarrow> session" where
  "discovery page timeout delay n =
     run page n (withCommentContainer page timeout delay \<lparr>calls = [], lookups = 0, timers = []\<rparr>)"

text \<open>
  The number of lookups the time budget allows: \<open>\<lceil>t / d\<rceil>\<close>, for \<open>t > 0\<close> and \<open>d > 0\<close>.
\<close>

definition budget :: "int \<Rightarrow> int \<Rightarrow> nat" where
  "budget t d = nat ((t + d - 1) div d)"

section \<open>DomManager: mutation utilities\<close>

text \<open>
  \<^verbatim>\<open>
  static replaceText(elem: HTMLElement, text: string): void {
      if (elem.childNodes.length == 0) {
          elem.appendChild(document.createTextNode(text));
      } else {
          elem.childNodes[0].nodeValue = text;
      }
  }
  \<close>
  The element is mutated in place; the model returns the element after the call.
\<close>

definition replaceText :: "element \<Rightarrow> string \<Rightarrow> element" where
  "replaceText elem text =
     (if length (childNodes elem) = 0 then appendChild elem (createTextNode text)
      else Element (tagName elem) (ident elem)
             ((childNodes elem)[0 := set_nodeValue (childNodes elem ! 0) text]))"

text \<open>
  \<^verbatim>\<open>
  static clearChildElements(element: HTMLElement): void {
      while (element.lastChild) element.removeChild(element.lastChild);
  }
  \<close>
  The last child is the one at position \<^verbatim>\<open>childNodes.length - 1\<close>.
\<close>

function clearChildElements :: "element \<Rightarrow> element" where
  "clearChildElements element =
     (if lastChild element \<noteq> None
      then clearChildElements (removeChild element (length (childNodes element) - 1))
      else element)"
  by pat_completeness auto
termination
  by (relation "measure (\<lambda>e. length (childNodes e))")
     (auto simp: lastChild_def removeChild_def split: if_splits)

declare clearChildElements.simps [simp del]

section \<open>Vocabulary of the properties\<close>

text \<open>
  A query has zero matches in a scope when the selector engine accepts the string and no
  element of the scope satisfies it; an id has zero matches when no element of the
  document carries it.
\<close>

definition zero_matches :: "selectors \<Rightarrow> parentNode \<Rightarrow> string \<Rightarrow> bool" where
  "zero_matches css scope query \<longleftrightarrow>
     (case css query of
        None \<Rightarrow> False
      | Some matches \<Rightarrow> \<forall>e\<in>set (scope_elements scope). \<not> matches e)"

definition no_element_with_id :: "document \<Rightarrow> string \<Rightarrow> bool" where
  "no_element_with_id d i \<longleftrightarrow> (\<forall>e\<in>set (scope_elements (OfDocument d)). \<not> has_id i e)"

definition nonTextChildren :: "element \<Rightarrow> node list" where
  "nonTextChildren elem = filter (\<lambda>n. \<not> isTextNode n) (childNodes elem)"

fun isElementNode :: "node \<Rightarrow> bool" where
  "isElementNode (ElementNode e) = True"
| "isElementNode (TextNode d) = False"
| "isElementNode (CommentNode d) = False"

subsection \<open>Example data\<close>

text \<open>
  A selector engine that reads \<^verbatim>\<open>#name\<close> as an id selector and any other non-empty
  string as a tag name, a configuration with selectors of these two shapes, and a few
  pages. They are the concrete inputs of the examples below; the theorems hold for every
  selector engine and every configuration.
\<close>

definition simple_selectors :: selectors where
  "simple_selectors query =
     (case query of
        [] \<Rightarrow> None
      | c # cs \<Rightarrow>
          if c = CHR ''#'' then (if cs = [] then None else Some (has_id cs))
          else Some (\<lambda>e. tagName e = query))"

definition example_config :: config where
  "example_config = \<lparr>
     ytCommentContainer = ''ytd-comments'',
     ytCommentTitle = ''h2'',
     ytCommentThread = ''ytd-comment-thread-renderer'',
     ytCommentContents = ''#contents'',
     ytCommentText = ''#content-text'',
     ytCommentSortItems = ''tp-yt-paper-item'',
     yayFilterContainer = ''yay-filter-container'',
     yayFilterStatus = ''yay-filter-status'',
     yayFilterInfo = ''yay-filter-info''\<rparr>"

definition bare_page :: document where
  "bare_page =
     Document [ElementNode (Element ''html'' '''' [ElementNode (Element ''body'' '''' [])])]"

definition filter_span :: element where
  "filter_span =
     Element ''span'' ''yay-filter-container''
       [ElementNode (Element ''div'' ''''
          [ElementNode (Element ''svg'' '''' []),
           ElementNode (Element ''span'' '''' [TextNode ''Filter'']),
           ElementNode (Element ''span'' ''yay-filter-status'' []),
           ElementNode (Element ''span'' ''yay-filter-info'' [])])]"

definition filter_page :: document where
  "filter_page =
     Document [ElementNode (Element ''html'' ''''
       [ElementNode (Element ''body'' '''' [ElementNode filter_span])])]"

definition comment_text :: element where
  "comment_text =
     Element ''yt-formatted-string'' ''content-text''
       [TextNode ''nice '', ElementNode (Element ''b'' '''' [TextNode ''video'']), CommentNode ''x'']"

definition comment_thread :: element where
  "comment_thread =
     Element ''ytd-comment-thread-renderer'' ''''
       [ElementNode (Element ''a'' ''author-text'' [TextNode ''alice'']),
        ElementNode comment_text]"

definition comment_container :: element where
  "comment_container = Element ''ytd-comments'' ''comments'' []"

section \<open>The discovery session\<close>

lemmas session_steps =
  withCommentContainer_def callback_def findCommentContainer_now_def setTimeout_def

subsection \<open>One run of withCommentContainer\<close>

lemma withCommentContainer_absent:
  "page (lookups s) = None \<Longrightarrow>
   withCommentContainer page t d s =
     s\<lparr>calls := calls s @ (if t \<le> 0 then [None] else []), lookups := lookups s + 1,
       timers := timers s @ [(t - d, d)]\<rparr>"
  by (simp add: session_steps)

lemma withCommentContainer_present:
  "page (lookups s) = Some e \<Longrightarrow>
   withCommentContainer page t d s =
     s\<lparr>calls := calls s @ (if t \<le> 0 then [None] else []) @ [Some e],
       lookups := lookups s + 1\<rparr>"
  by (simp add: session_steps)

lemma withCommentContainer_always_looks_up:
  "lookups (withCommentContainer page t d s) = lookups s + 1"
  by (cases "page (lookups s)") (simp_all add: session_steps)

lemma run_idle: "timers s = [] \<Longrightarrow> run page n s = s"
  by (cases n) simp_all

subsection \<open>The lookup budget\<close>

lemma budget_exhausted:
  assumes "t \<le> 0" and "0 < d"
  shows "budget t d = 0"
proof -
  have "(t + d - 1) div d \<le> (d - 1) div d"
    using assms by (intro zdiv_mono1) simp_all
  also have "(d - 1) div d = 0"
    using \<open>0 < d\<close> by simp
  finally show ?thesis
    by (simp add: budget_def)
qed

lemma budget_step:
  assumes "0 < t" and "0 < d"
  shows "budget t d = Suc (budget (t - d) d)"
proof -
  have "(t + d - 1) div d = (t - 1) div d + 1"
    using assms by (metis add.commute add_diff_eq div_add_self1 less_irrefl)
  moreover have "0 \<le> (t - 1) div d"
    using assms by (simp add: pos_imp_zdiv_nonneg_iff)
  ultimately show ?thesis
    by (simp add: budget_def nat_add_distrib)
qed

lemma budget_ceiling:
  assumes d: "0 < d" and t: "0 < t"
  shows "int (budget t d) = ceiling (real_of_int t / real_of_int d)"
proof -
  define q where "q = (t + d - 1) div d"
  define r where "r = (t + d - 1) mod d"
  have split: "q * d + r = t + d - 1"
    by (simp add: q_def r_def)
  have r: "0 \<le> r" "r < d"
    using d by (simp_all add: r_def)
  have upper: "t \<le> q * d"
    using split r by linarith
  have lower: "(q - 1) * d < t"
    using split r by (simp add: algebra_simps)
  have "real_of_int t \<le> real_of_int (q * d)"
    using upper by (simp only: of_int_le_iff)
  then have u: "real_of_int t / real_of_int d \<le> real_of_int q"
    using d by (simp add: pos_divide_le_eq)
  have "real_of_int ((q - 1) * d) < real_of_int t"
    using lower by (simp only: of_int_less_iff)
  then have "(real_of_int q - 1) * real_of_int d < real_of_int t"
    by simp
  then have l: "real_of_int q - 1 < real_of_int t / real_of_int d"
    using d by (simp only: pos_less_divide_eq of_int_0_less_iff)
  have "ceiling (real_of_int t / real_of_int d) = q"
    using l u by (rule ceiling_unique)
  moreover have "0 \<le> q"
    using d t by (simp add: q_def pos_imp_zdiv_nonneg_iff)
  ultimately show ?thesis
    by (simp add: budget_def q_def)
qed

subsection \<open>A page that never shows the container\<close>

text \<open>
  With a timer pending and the container absent at every lookup, each turn of the event
  loop looks up once and leaves a new timer; from the turn whose \<open>timeout\<close> is no longer
  positive on, each turn also invokes the callback with \<open>None\<close>.
\<close>

lemma run_absent:
  "\<forall>i. page i = None \<Longrightarrow> timers s = [(t, d)] \<Longrightarrow> 0 < d \<Longrightarrow>
   run page n s =
     \<lparr>calls = calls s @ replicate (n - budget t d) None, lookups = lookups s + n,
      timers = [(t - int n * d, d)]\<rparr>"
proof (induction n arbitrary: s t)
  case 0
  then show ?case by simp
next
  case (Suc n)
  let ?s' = "withCommentContainer page t d (s\<lparr>timers := []\<rparr>)"
  have s': "?s' = \<lparr>calls = calls s @ (if t \<le> 0 then [None] else []),
      lookups = lookups s + 1, timers = [(t - d, d)]\<rparr>"
    using Suc.prems(1) by (simp add: withCommentContainer_absent)
  have "run page (Suc n) s = run page n ?s'"
    using Suc.prems(2) by simp
  also have "\<dots> = \<lparr>calls = calls ?s' @ replicate (n - budget (t - d) d) None,
      lookups = lookups ?s' + n, timers = [(t - d - int n * d, d)]\<rparr>"
  proof (rule Suc.IH)
    show "\<forall>i. page i = None" by fact
    show "timers ?s' = [(t - d, d)]" by (simp add: s')
    show "0 < d" by fact
  qed
  also have "\<dots> = \<lparr>calls = calls s @ replicate (Suc n - budget t d) None,
      lookups = lookups s + Suc n, timers = [(t - int (Suc n) * d, d)]\<rparr>"
  proof (cases "t \<le> 0")
    case True
    then have "budget t d = 0" "budget (t - d) d = 0"
      using Suc.prems(3) by (simp_all add: budget_exhausted)
    then show ?thesis using True s' by (simp add: algebra_simps)
  next
    case False
    then have "budget t d = Suc (budget (t - d) d)"
      using Suc.prems(3) by (simp add: budget_step)
    then show ?thesis using False s' by (simp add: algebra_simps)
  qed
  finally show ?case .
qed

text \<open>
  Hence a session on such a page never ends: after any number \<open>n\<close> of turns a timer is
  still pending, \<open>n + 1\<close> lookups have been made, and the callback has been invoked
  \<open>n + 1 - \<lceil>t / d\<rceil>\<close> times, each time with \<open>None\<close>.
\<close>

lemma discovery_absent:
  assumes "\<forall>i. page i = None" and "0 < t" and "0 < d"
  shows "discovery page t d n =
      \<lparr>calls = replicate (Suc n - budget t d) None, lookups = Suc n,
       timers = [(t - (int n + 1) * d, d)]\<rparr>"
proof -
  let ?s0 = "\<lparr>calls = [], lookups = 0, timers = []\<rparr>"
  have s1: "withCommentContainer page t d ?s0 = \<lparr>calls = [], lookups = 1, timers = [(t - d, d)]\<rparr>"
    using assms by (simp add: withCommentContainer_absent)
  have "discovery page t d n = \<lparr>calls = replicate (n - budget (t - d) d) None, lookups = 1 + n,
      timers = [(t - d - int n * d, d)]\<rparr>"
    unfolding discovery_def s1
    using run_absent [OF assms(1), of "\<lparr>calls = [], lookups = 1, timers = [(t - d, d)]\<rparr>" "t - d" d n]
      assms(3)
    by simp
  moreover have "budget t d = Suc (budget (t - d) d)"
    using assms by (simp add: budget_step)
  ultimately show ?thesis by (simp add: algebra_simps)
qed

subsection \<open>A page that shows the container while the budget lasts\<close>

lemma run_found:
  "\<forall>i<k. page (lookups s + i) = None \<Longrightarrow> page (lookups s + k) = Some e \<Longrightarrow>
   timers s = [(t, d)] \<Longrightarrow> 0 < d \<Longrightarrow> int k * d < t \<Longrightarrow> k < n \<Longrightarrow>
   run page n s = \<lparr>calls = calls s @ [Some e], lookups = lookups s + Suc k, timers = []\<rparr>"
proof (induction k arbitrary: s t n)
  case 0
  then obtain m where n: "n = Suc m" by (cases n) auto
  have "withCommentContainer page t d (s\<lparr>timers := []\<rparr>)
        = \<lparr>calls = calls s @ [Some e], lookups = lookups s + 1, timers = []\<rparr>"
    using 0 by (simp add: withCommentContainer_present)
  then show ?case using 0 n by (simp add: run_idle)
next
  case (Suc k)
  then obtain m where n: "n = Suc m" by (cases n) auto
  let ?s' = "withCommentContainer page t d (s\<lparr>timers := []\<rparr>)"
  have "0 \<le> int (Suc k) * d"
    using Suc.prems(4) by simp
  then have t: "0 < t"
    using Suc.prems(5) by linarith
  have "page (lookups s) = None"
    using Suc.prems(1) by force
  then have s': "?s' = \<lparr>calls = calls s, lookups = lookups s + 1, timers = [(t - d, d)]\<rparr>"
    using t by (simp add: withCommentContainer_absent)
  have "run page n s = run page m ?s'"
    using Suc.prems(3) n by simp
  also have "\<dots> = \<lparr>calls = calls ?s' @ [Some e], lookups = lookups ?s' + Suc k, timers = []\<rparr>"
  proof (rule Suc.IH)
    show "\<forall>i<k. page (lookups ?s' + i) = None"
    proof (intro allI impI)
      fix i assume "i < k"
      then have "Suc i < Suc k" by simp
      then have "page (lookups s + Suc i) = None"
        using Suc.prems(1) by blast
      then show "page (lookups ?s' + i) = None"
        by (simp add: s')
    qed
    show "page (lookups ?s' + k) = Some e"
      using Suc.prems(2) s' by simp
    show "timers ?s' = [(t - d, d)]"
      using s' by simp
    show "0 < d" by fact
    show "int k * d < t - d"
      using Suc.prems(5) by (simp add: algebra_simps)
    show "k < m"
      using Suc.prems(6) n by simp
  qed
  finally show ?case using s' by simp
qed

text \<open>
  If the container first shows at lookup number \<open>k + 1\<close> and \<open>k\<close> retry intervals fit
  strictly inside the timeout, the callback is invoked once, with the container, and no
  timer is left.
\<close>

lemma discovery_found_within_budget:
  assumes absent: "\<forall>i<k. page i = None" and present: "page k = Some e"
    and d: "0 < d" and fits: "int k * d < t" and turns: "k \<le> n"
  shows "discovery page t d n = \<lparr>calls = [Some e], lookups = Suc k, timers = []\<rparr>"
proof (cases k)
  case 0
  then have "0 < t" using fits by simp
  then have "withCommentContainer page t d \<lparr>calls = [], lookups = 0, timers = []\<rparr>
      = \<lparr>calls = [Some e], lookups = 1, timers = []\<rparr>"
    using present 0 by (simp add: withCommentContainer_present)
  then show ?thesis
    using 0 by (simp add: discovery_def run_idle)
next
  case (Suc j)
  let ?s1 = "\<lparr>calls = [], lookups = 1, timers = [(t - d, d)]\<rparr>"
  have "0 \<le> int k * d" using d by simp
  then have "0 < t" using fits by linarith
  moreover have "page 0 = None" using absent Suc by simp
  ultimately have s1: "withCommentContainer page t d \<lparr>calls = [], lookups = 0, timers = []\<rparr> = ?s1"
    by (simp add: withCommentContainer_absent)
  have "run page n ?s1 = \<lparr>calls = calls ?s1 @ [Some e], lookups = lookups ?s1 + Suc j, timers = []\<rparr>"
  proof (rule run_found)
    show "\<forall>i<j. page (lookups ?s1 + i) = None"
      using absent Suc by simp
    show "page (lookups ?s1 + j) = Some e"
      using present Suc by simp
    show "timers ?s1 = [(t - d, d)]" by simp
    show "0 < d" by fact
    show "int j * d < t - d"
      using fits Suc by (simp add: algebra_simps)
    show "j < n" using turns Suc by simp
  qed
  then show ?thesis
    using Suc by (simp add: discovery_def s1)
qed

subsection \<open>What the sessions of C1 to C4 do\<close>

text \<open>
  C1. The claim: in every discovery session the callback is invoked exactly once, with
  the container or with \<open>None\<close>. The code: the branch \<^verbatim>\<open>timeout <= 0\<close> invokes
  \<^verbatim>\<open>callback(null)\<close> and then falls through to the lookup. Started with timeout \<open>0\<close> on a
  page that already holds the container, the session invokes the callback twice, first
  with \<open>None\<close> and then with the container.
\<close>

theorem expired_session_calls_back_twice:
  "discovery (\<lambda>i. Some comment_container) 0 200 0
     = \<lparr>calls = [None, Some comment_container], lookups = 1, timers = []\<rparr>"
  by (simp add: discovery_def session_steps)

text \<open>
  C2. The claim: with a timeout \<open>t \<le> 0\<close> the callback is invoked once with \<open>None\<close> and no
  lookup is made. The code: started with timeout \<open>0\<close> and delay \<open>200\<close> on a page without
  the container, the first run invokes the callback with \<open>None\<close>, makes one lookup and
  leaves a timer; two turns later the callback has been invoked three times.
\<close>

theorem expired_session_looks_up_and_retries:
  "discovery (\<lambda>i. None) 0 200 0 = \<lparr>calls = [None], lookups = 1, timers = [(- 200, 200)]\<rparr>
   \<and> discovery (\<lambda>i. None) 0 200 2
       = \<lparr>calls = [None, None, None], lookups = 3, timers = [(- 600, 200)]\<rparr>"
  by (simp add: discovery_def session_steps numeral_eq_Suc)

text \<open>
  C3. The claim: with \<open>t > 0\<close>, \<open>d > 0\<close> and the container absent throughout, the callback
  is invoked once with \<open>None\<close> after \<open>\<lceil>t / d\<rceil>\<close> lookups and nothing more is scheduled.
  The code: with timeout \<open>400\<close> and delay \<open>200\<close> the budget is two lookups; after four
  turns of the event loop the session has made five lookups, has invoked the callback
  three times, and has a timer pending.
\<close>

theorem absent_session_never_stops:
  "budget 400 200 = 2
   \<and> discovery (\<lambda>i. None) 400 200 4
       = \<lparr>calls = [None, None, None], lookups = 5, timers = [(- 600, 200)]\<rparr>"
  by (simp add: budget_def discovery_def session_steps numeral_eq_Suc)

text \<open>
  C4. The claim: with \<open>t > 0\<close> and \<open>d > 0\<close>, if the container is present at or before
  the \<open>k\<close>-th lookup, the callback is invoked exactly once, with the container. The code:
  with timeout \<open>200\<close> and delay \<open>200\<close> on a page that shows the container from the second
  lookup on, the second run of \<^verbatim>\<open>withCommentContainer\<close> has timeout \<open>0\<close>: it invokes the
  callback with \<open>None\<close>, looks up, and invokes the callback again with the container.
\<close>

theorem late_container_calls_back_twice:
  "discovery (\<lambda>i. if i < 1 then None else Some comment_container) 200 200 1
     = \<lparr>calls = [None, Some comment_container], lookups = 2, timers = []\<rparr>"
  by (simp add: discovery_def session_steps)

section \<open>The lookups\<close>

lemma find_None_iff_no_match: "find P xs = None \<longleftrightarrow> (\<forall>x\<in>set xs. \<not> P x)"
  by (induction xs) auto

lemma find_first:
  "xs = before @ x # after \<Longrightarrow> \<forall>e\<in>set before. \<not> P e \<Longrightarrow> P x \<Longrightarrow> find P xs = Some x"
  by (induction before arbitrary: xs) auto

lemma querySelector_zero:
  "zero_matches css scope query \<Longrightarrow> querySelector css scope query = Inr None"
  by (auto simp: zero_matches_def querySelector_def find_None_iff_no_match split: option.splits)

lemma querySelectorAll_zero:
  "zero_matches css scope query \<Longrightarrow> querySelectorAll css scope query = Inr []"
  by (auto simp: zero_matches_def querySelectorAll_def filter_empty_conv split: option.splits)

lemma getElementByQuery_zero:
  "zero_matches css (case ancestor of None \<Rightarrow> OfDocument document | Some a \<Rightarrow> OfElement a) query \<Longrightarrow>
   getElementByQuery css document query ancestor = Inl (Error (''Element not found: '' @ query))"
  by (simp add: getElementByQuery_def querySelector_zero)

lemma document_getElementById_none:
  "no_element_with_id d i \<Longrightarrow> document_getElementById d i = None"
  by (simp add: no_element_with_id_def document_getElementById_def find_None_iff_no_match)

text \<open>
  C5. On a query with zero matches, every get-style lookup (\<open>getElementByQuery\<close>,
  \<open>getElementById\<close>, \<open>getYayFilterContainer\<close>, \<open>getCommentThreadContainer\<close>) throws the
  error whose message is \<^verbatim>\<open>Element not found: \<close> followed by the query string it ran, and
  every find-style lookup returns \<^verbatim>\<open>null\<close> (\<open>None\<close>) or the empty list and does not throw.
\<close>

theorem zero_matches_get_throws_find_absent:
  "(zero_matches css (case ancestor of None \<Rightarrow> OfDocument document | Some a \<Rightarrow> OfElement a) query \<longrightarrow>
      getElementByQuery css document query ancestor = Inl (Error (''Element not found: '' @ query)))
   \<and> (zero_matches css (OfDocument document) (''#'' @ i) \<longrightarrow>
      getElementById css document i = Inl (Error (''Element not found: #'' @ i)))
   \<and> (zero_matches css (OfDocument document) (''#'' @ yayFilterContainer cfg) \<longrightarrow>
      getYayFilterContainer css cfg document
        = Inl (Error (''Element not found: #'' @ yayFilterContainer cfg)))
   \<and> (zero_matches css (OfDocument document) (ytCommentContents cfg) \<longrightarrow>
      getCommentThreadContainer css cfg document
        = Inl (Error (''Element not found: '' @ ytCommentContents cfg)))
   \<and> (zero_matches css (OfDocument document) (ytCommentContainer cfg) \<longrightarrow>
      findCommentContainer css cfg document = Inr None)
   \<and> (zero_matches css (OfDocument document) (ytCommentTitle cfg) \<longrightarrow>
      findCommentHeader css cfg document = Inr None)
   \<and> (zero_matches css (OfDocument document) (ytCommentThread cfg) \<longrightarrow>
      findCommentThreads css cfg document = Inr [])
   \<and> (zero_matches css (OfDocument document) (ytCommentSortItems cfg) \<longrightarrow>
      findSortItems css cfg document = Inr [])
   \<and> (no_element_with_id document (yayFilterContainer cfg) \<longrightarrow>
      findYayFilterContainer cfg document = None)
   \<and> (no_element_with_id document (yayFilterStatus cfg) \<longrightarrow>
      findYayFilterStatus cfg document = None)
   \<and> (no_element_with_id document (yayFilterInfo cfg) \<longrightarrow>
      findYayFilterInfo cfg document = None)"
proof -
  have get: "zero_matches css (OfDocument document) q \<Longrightarrow>
      getElementByQuery css document q None = Inl (Error (''Element not found: '' @ q))" for q
    using getElementByQuery_zero [where ancestor = None] by simp
  show ?thesis
    by (simp add: getElementByQuery_zero get getElementById_def getYayFilterContainer_def
        getCommentThreadContainer_def findCommentContainer_def findCommentHeader_def
        findCommentThreads_def findSortItems_def findYayFilterContainer_def
        findYayFilterStatus_def findYayFilterInfo_def querySelector_zero querySelectorAll_zero
        document_getElementById_none)
qed

theorem zero_matches_get_throws_find_absent_witness:
  "zero_matches simple_selectors (OfDocument bare_page) ''ytd-comments''
   \<and> getElementByQuery simple_selectors bare_page ''ytd-comments'' None
       = Inl (Error ''Element not found: ytd-comments'')
   \<and> zero_matches simple_selectors (OfDocument bare_page) ''#yay-filter-container''
   \<and> getElementById simple_selectors bare_page ''yay-filter-container''
       = Inl (Error ''Element not found: #yay-filter-container'')
   \<and> getYayFilterContainer simple_selectors example_config bare_page
       = Inl (Error ''Element not found: #yay-filter-container'')
   \<and> zero_matches simple_selectors (OfDocument bare_page) ''#contents''
   \<and> getCommentThreadContainer simple_selectors example_config bare_page
       = Inl (Error ''Element not found: #contents'')
   \<and> findCommentContainer simple_selectors example_config bare_page = Inr None
   \<and> zero_matches simple_selectors (OfDocument bare_page) ''h2''
   \<and> findCommentHeader simple_selectors example_config bare_page = Inr None
   \<and> zero_matches simple_selectors (OfDocument bare_page) ''ytd-comment-thread-renderer''
   \<and> findCommentThreads simple_selectors example_config bare_page = Inr []
   \<and> zero_matches simple_selectors (OfDocument bare_page) ''tp-yt-paper-item''
   \<and> findSortItems simple_selectors example_config bare_page = Inr []
   \<and> no_element_with_id bare_page ''yay-filter-container''
   \<and> findYayFilterContainer example_config bare_page = None
   \<and> no_element_with_id bare_page ''yay-filter-status''
   \<and> findYayFilterStatus example_config bare_page = None
   \<and> no_element_with_id bare_page ''yay-filter-info''
   \<and> findYayFilterInfo example_config bare_page = None"
  using zero_matches_get_throws_find_absent
    [where css = simple_selectors and document = bare_page and ancestor = None
       and query = "''ytd-comments''" and i = "''yay-filter-container''"
       and cfg = example_config]
  by (simp add: zero_matches_def no_element_with_id_def simple_selectors_def
      example_config_def bare_page_def has_id_def)

text \<open>
  C10. \<open>getYayFilterContainer\<close> returns an element exactly when \<open>findYayFilterContainer\<close>
  returns one, and then both return the same element. The first looks the id up through
  \<^verbatim>\<open>querySelector('#' + id)\<close>, the second through \<^verbatim>\<open>document.getElementById(id)\<close>; the
  hypothesis is that the selector engine reads \<^verbatim>\<open>'#' + id\<close> as the id selector for the
  configured id (as it does for an id that is a CSS identifier).
\<close>

theorem yayFilterContainer_get_find_agree:
  assumes "css (''#'' @ yayFilterContainer cfg) = Some (has_id (yayFilterContainer cfg))"
  shows "(getYayFilterContainer css cfg document = Inr e
            \<longleftrightarrow> findYayFilterContainer cfg document = Some e)
     \<and> ((\<exists>elem. getYayFilterContainer css cfg document = Inr elem)
            \<longleftrightarrow> findYayFilterContainer cfg document \<noteq> None)"
  using assms
  by (auto simp: getYayFilterContainer_def getElementById_def getElementByQuery_def
      querySelector_def findYayFilterContainer_def document_getElementById_def
      split: option.splits)

theorem yayFilterContainer_get_find_agree_witness:
  "simple_selectors (''#'' @ yayFilterContainer example_config)
     = Some (has_id (yayFilterContainer example_config))
   \<and> findYayFilterContainer example_config filter_page = Some filter_span
   \<and> getYayFilterContainer simple_selectors example_config filter_page = Inr filter_span"
proof -
  have h: "simple_selectors (''#'' @ yayFilterContainer example_config)
     = Some (has_id (yayFilterContainer example_config))"
    by (simp add: simple_selectors_def example_config_def)
  have f: "findYayFilterContainer example_config filter_page = Some filter_span"
    by (simp add: findYayFilterContainer_def document_getElementById_def example_config_def
        filter_page_def filter_span_def has_id_def)
  show ?thesis
    using h f yayFilterContainer_get_find_agree
        [where css = simple_selectors and cfg = example_config and document = filter_page
           and e = filter_span, OF h]
    by simp
qed

text \<open>
  C9. \<open>fetchTextContent\<close> never throws and always returns a string (the configured
  comment-text selector being one the selector engine accepts): the empty string when no
  descendant of the thread matches the selector, or when the first matching descendant
  has \<^verbatim>\<open>null\<close> \<^verbatim>\<open>textContent\<close>; otherwise the \<^verbatim>\<open>textContent\<close> of the first matching
  descendant.
\<close>

theorem fetchTextContent_total:
  assumes "css (ytCommentText cfg) = Some matches"
  shows "(\<exists>s. fetchTextContent css cfg thread = Inr s)
     \<and> ((\<forall>e\<in>set (descendants thread). \<not> matches e) \<longrightarrow>
           fetchTextContent css cfg thread = Inr '''')
     \<and> (descendants thread = before @ text_elem # after
          \<and> (\<forall>e\<in>set before. \<not> matches e) \<and> matches text_elem \<longrightarrow>
           (textContent text_elem = None \<longrightarrow> fetchTextContent css cfg thread = Inr '''')
         \<and> (\<forall>content. textContent text_elem = Some content \<longrightarrow>
               fetchTextContent css cfg thread = Inr content))"
proof (intro conjI allI impI)
  show "\<exists>s. fetchTextContent css cfg thread = Inr s"
    using assms by (simp add: fetchTextContent_def querySelector_def split: option.splits)
next
  assume "\<forall>e\<in>set (descendants thread). \<not> matches e"
  then have "find matches (descendants thread) = None"
    by (simp add: find_None_iff_no_match)
  then show "fetchTextContent css cfg thread = Inr ''''"
    using assms by (simp add: fetchTextContent_def querySelector_def)
next
  assume "descendants thread = before @ text_elem # after
      \<and> (\<forall>e\<in>set before. \<not> matches e) \<and> matches text_elem"
    and "textContent text_elem = None"
  then show "fetchTextContent css cfg thread = Inr ''''"
    using assms find_first [of "descendants thread" before text_elem after matches]
    by (simp add: fetchTextContent_def querySelector_def)
next
  fix content
  assume "descendants thread = before @ text_elem # after
      \<and> (\<forall>e\<in>set before. \<not> matches e) \<and> matches text_elem"
    and "textContent text_elem = Some content"
  then show "fetchTextContent css cfg thread = Inr content"
    using assms find_first [of "descendants thread" before text_elem after matches]
    by (simp add: fetchTextContent_def querySelector_def)
qed

theorem fetchTextContent_total_witness:
  "simple_selectors (ytCommentText example_config) = Some (has_id ''content-text'')
   \<and> fetchTextContent simple_selectors example_config comment_thread = Inr ''nice video''
   \<and> fetchTextContent simple_selectors example_config
        (Element ''ytd-comment-thread-renderer'' '''' []) = Inr ''''"
proof -
  let ?author = "Element ''a'' ''author-text'' [TextNode ''alice'']"
  let ?bold = "Element ''b'' '''' [TextNode ''video'']"
  have h: "simple_selectors (ytCommentText example_config) = Some (has_id ''content-text'')"
    by (simp add: simple_selectors_def example_config_def)
  have shape: "descendants comment_thread = [?author] @ comment_text # [?bold]
      \<and> (\<forall>e\<in>set [?author]. \<not> has_id ''content-text'' e) \<and> has_id ''content-text'' comment_text"
    by (simp add: comment_thread_def comment_text_def has_id_def)
  have content: "textContent comment_text = Some ''nice video''"
    by (simp add: textContent_def comment_text_def)
  have none: "\<forall>e\<in>set (descendants (Element ''ytd-comment-thread-renderer'' '''' [])).
      \<not> has_id ''content-text'' e"
    by simp
  show ?thesis
    using h shape content none
      fetchTextContent_total [where css = simple_selectors and cfg = example_config
        and matches = "has_id ''content-text''" and thread = comment_thread
        and before = "[?author]" and text_elem = comment_text and after = "[?bold]", OF h]
      fetchTextContent_total [where css = simple_selectors and cfg = example_config
        and matches = "has_id ''content-text''"
        and thread = "Element ''ytd-comment-thread-renderer'' '''' []", OF h]
    by simp
qed

section \<open>The mutation utilities\<close>

text \<open>
  C6. On an element with no child nodes, \<open>replaceText\<close> leaves exactly one child, a text
  node whose value is the given text.
\<close>

theorem replaceText_empty:
  "childNodes elem = [] \<Longrightarrow>
     childNodes (replaceText elem text) = [TextNode text]
     \<and> length (childNodes (replaceText elem text)) = 1
     \<and> nodeValue (childNodes (replaceText elem text) ! 0) = Some text
     \<and> isTextNode (childNodes (replaceText elem text) ! 0)"
  by (simp add: replaceText_def appendChild_def createTextNode_def)

theorem replaceText_empty_witness:
  "childNodes (Element ''span'' ''yay-filter-status'' []) = []
   \<and> childNodes (replaceText (Element ''span'' ''yay-filter-status'' []) ''on'') = [TextNode ''on'']"
  using replaceText_empty [of "Element ''span'' ''yay-filter-status'' []" "''on''"]
  by simp

lemma isTextNode_set_nodeValue: "isTextNode (set_nodeValue n v) = isTextNode n"
  by (cases n) simp_all

lemma replaceText_nonTextChildren:
  "length (nonTextChildren (replaceText elem text)) = length (nonTextChildren elem)"
  by (cases "childNodes elem")
     (simp_all add: replaceText_def nonTextChildren_def appendChild_def createTextNode_def
        isTextNode_set_nodeValue)

lemma replaceText_first:
  "childNodes elem = [] \<or> \<not> isElementNode (childNodes elem ! 0) \<Longrightarrow>
   nodeValue (childNodes (replaceText elem text) ! 0) = Some text
   \<and> childNodes (replaceText elem text) \<noteq> []
   \<and> \<not> isElementNode (childNodes (replaceText elem text) ! 0)"
proof (cases "childNodes elem")
  case Nil
  then show ?thesis
    by (simp add: replaceText_def appendChild_def createTextNode_def)
next
  case (Cons n ns)
  assume "childNodes elem = [] \<or> \<not> isElementNode (childNodes elem ! 0)"
  with Cons have "\<not> isElementNode n" by simp
  with Cons show ?thesis
    by (cases n) (simp_all add: replaceText_def)
qed

lemma replaceText_element_first:
  "childNodes elem \<noteq> [] \<Longrightarrow> isElementNode (childNodes elem ! 0) \<Longrightarrow>
   replaceText elem text = elem"
proof (cases "childNodes elem")
  case Nil
  assume "childNodes elem \<noteq> []"
  with Nil show ?thesis by simp
next
  case (Cons n ns)
  assume "isElementNode (childNodes elem ! 0)"
  with Cons show ?thesis
    by (cases n; cases elem) (simp_all add: replaceText_def)
qed

text \<open>
  C7, as the code has it. Two calls of \<open>replaceText\<close> in succession leave the number of
  non-text child nodes as it was; and when the element has no children, or its first
  child is not an element node, they leave the first child's value equal to the second
  call's argument. When the first child is an element node, both calls leave the element
  as it was.
\<close>

theorem replaceText_twice:
  "length (nonTextChildren (replaceText (replaceText elem a) b)) = length (nonTextChildren elem)
   \<and> (childNodes elem = [] \<or> \<not> isElementNode (childNodes elem ! 0) \<longrightarrow>
        nodeValue (childNodes (replaceText (replaceText elem a) b) ! 0) = Some b)
   \<and> (childNodes elem \<noteq> [] \<and> isElementNode (childNodes elem ! 0) \<longrightarrow>
        replaceText (replaceText elem a) b = elem)"
proof (intro conjI impI)
  show "length (nonTextChildren (replaceText (replaceText elem a) b))
      = length (nonTextChildren elem)"
    by (simp add: replaceText_nonTextChildren)
next
  assume h: "childNodes elem = [] \<or> \<not> isElementNode (childNodes elem ! 0)"
  from replaceText_first [OF h, of a]
  have "childNodes (replaceText elem a) = []
      \<or> \<not> isElementNode (childNodes (replaceText elem a) ! 0)"
    by simp
  from replaceText_first [OF this, of b]
  show "nodeValue (childNodes (replaceText (replaceText elem a) b) ! 0) = Some b"
    by simp
next
  assume "childNodes elem \<noteq> [] \<and> isElementNode (childNodes elem ! 0)"
  then show "replaceText (replaceText elem a) b = elem"
    by (simp add: replaceText_element_first)
qed

theorem replaceText_twice_witness:
  "nodeValue (childNodes (replaceText (replaceText
      (Element ''span'' ''yay-filter-status'' [TextNode ''on'', ElementNode (Element ''i'' '''' [])])
      ''off'') ''on'') ! 0) = Some ''on''
   \<and> replaceText (replaceText
        (Element ''div'' '''' [ElementNode (Element ''svg'' '''' []), TextNode ''Filter''])
        ''off'') ''on''
      = Element ''div'' '''' [ElementNode (Element ''svg'' '''' []), TextNode ''Filter'']"
  using replaceText_twice
      [of "Element ''span'' ''yay-filter-status'' [TextNode ''on'', ElementNode (Element ''i'' '''' [])]"
        "''off''" "''on''"]
    replaceText_twice
      [of "Element ''div'' '''' [ElementNode (Element ''svg'' '''' []), TextNode ''Filter'']"
        "''off''" "''on''"]
  by simp

text \<open>
  C7, as stated, fails on an element whose first child is an element node, such as the
  \<^verbatim>\<open>div\<close> that \<^verbatim>\<open>createYayFilterContainer\<close> builds (an icon followed by labels): the
  assignment to \<^verbatim>\<open>nodeValue\<close> has no effect on the icon, whose value stays \<^verbatim>\<open>null\<close>.
\<close>

theorem replaceText_twice_counterexample:
  "nodeValue (childNodes (replaceText (replaceText
      (Element ''div'' ''''
         [ElementNode (Element ''svg'' '''' []),
          ElementNode (Element ''span'' '''' [TextNode ''Filter''])])
      ''on'') ''off'') ! 0) \<noteq> Some ''off''"
  by (simp add: replaceText_def)

lemma clearChildElements_result:
  "childNodes (clearChildElements element) = []
   \<and> tagName (clearChildElements element) = tagName element
   \<and> ident (clearChildElements element) = ident element"
proof (induction element rule: clearChildElements.induct)
  case (1 element)
  show ?case
  proof (cases "lastChild element \<noteq> None")
    case True
    then show ?thesis
      using 1 by (subst (1 2 3) clearChildElements.simps) (simp add: removeChild_def)
  next
    case False
    then show ?thesis
      by (subst (1 2 3) clearChildElements.simps) (simp add: lastChild_def split: if_splits)
  qed
qed

lemma clearChildElements_noop:
  "childNodes element = [] \<Longrightarrow> clearChildElements element = element"
  by (subst clearChildElements.simps) (simp add: lastChild_def)

text \<open>
  C8. \<open>clearChildElements\<close> leaves the element with no child nodes, the element itself
  (its tag and id) still there; on an element without children it changes nothing; and a
  second call changes nothing after the first.
\<close>

theorem clearChildElements_clears:
  "childNodes (clearChildElements element) = []
   \<and> tagName (clearChildElements element) = tagName element
   \<and> ident (clearChildElements element) = ident element
   \<and> (childNodes element = [] \<longrightarrow> clearChildElements element = element)
   \<and> clearChildElements (clearChildElements element) = clearChildElements element"
  by (simp add: clearChildElements_result clearChildElements_noop)

theorem clearChildElements_clears_witness:
  "childNodes (Element ''span'' ''yay-filter-info'' []) = []
   \<and> clearChildElements (Element ''span'' ''yay-filter-info'' [])
       = Element ''span'' ''yay-filter-info'' []
   \<and> childNodes (clearChildElements filter_span) = []
   \<and> ident (clearChildElements filter_span) = ''yay-filter-container''"
  using clearChildElements_clears [of "Element ''span'' ''yay-filter-info'' []"]
    clearChildElements_clears [of filter_span]
  by (simp add: filter_span_def)

end
